theory Spec2Isabelle
  imports Complex_Main "HOL-Library.AList" "HOL-Library.Sublist"
begin

section \<open>JavaScript values, strings and errors\<close>

text \<open>
  The verification core is JavaScript. A value that reaches it from a request body is any
  JSON value or \<open>undefined\<close>. Strings are modelled as \<^typ>\<open>string\<close>; the model
  covers ASCII text, where \<open>toLowerCase\<close> maps \<open>A..Z\<close> to \<open>a..z\<close> and leaves every
  other character as it is. A finite number is the rational it denotes.
\<close>

datatype js_value =
    JUndefined
  | JNull
  | JBool bool
  | JNumber rat
  | JString string
  | JArray "js_value list"
  | JObject "(string \<times> js_value) list"

datatype js_error = TypeError string | Error string

fun message :: "js_error \<Rightarrow> string" where
  "message (TypeError m) = m"
| "message (Error m) = m"

text \<open>\<open>typeof v\<close> and the truthiness \<open>!!v\<close> of a value.\<close>

fun typeof :: "js_value \<Rightarrow> string" where
  "typeof JUndefined = ''undefined''"
| "typeof JNull = ''object''"
| "typeof (JBool b) = ''boolean''"
| "typeof (JNumber n) = ''number''"
| "typeof (JString s) = ''string''"
| "typeof (JArray xs) = ''object''"
| "typeof (JObject kvs) = ''object''"

fun truthy :: "js_value \<Rightarrow> bool" where
  "truthy JUndefined = False"
| "truthy JNull = False"
| "truthy (JBool b) = b"
| "truthy (JNumber n) = (n \<noteq> 0)"
| "truthy (JString s) = (s \<noteq> [])"
| "truthy (JArray xs) = True"
| "truthy (JObject kvs) = True"

definition lower_char :: "char \<Rightarrow> char" where
  "lower_char c =
     (let n = (of_char c :: nat) in if 65 \<le> n \<and> n \<le> 90 then char_of (n + 32) else c)"

definition toLowerCase :: "string \<Rightarrow> string" where
  "toLowerCase s = map lower_char s"

text \<open>\<open>s.includes(k)\<close>: \<open>k\<close> occurs in \<open>s\<close> as a contiguous substring.\<close>

fun str_includes :: "string \<Rightarrow> string \<Rightarrow> bool" where
  "str_includes [] k = (k = [])"
| "str_includes (c # s) k = (prefix k (c # s) \<or> str_includes s k)"

text \<open>\<open>keywords.some(keyword => contentLower.includes(...))\<close>.\<close>

definition some_keyword :: "(string \<Rightarrow> string) \<Rightarrow> string \<Rightarrow> string list \<Rightarrow> bool" where
  "some_keyword f contentLower kws = list_ex (\<lambda>keyword. str_includes contentLower (f keyword)) kws"

section \<open>Agent configuration of the bot's VerificationSystem\<close>

text \<open>
  \<open>loadAgents\<close> fills \<open>this.agents\<close> with six literal descriptors, once, when the system
  is constructed. The fields \<open>emoji\<close>, \<open>description\<close> and \<open>capabilities\<close> are
  presentation text that no operation of the core reads; they are left out.
\<close>

record agent =
  agent_id :: string
  agent_name :: string
  agent_keywords :: "string list"
  processingTime :: int

definition news_agent :: agent where
  "news_agent = \<lparr>agent_id = ''news'', agent_name = ''News Verification Agent'',
     agent_keywords = [''breaking'', ''news'', ''report'', ''journalist'', ''headline'', ''media'', ''press''],
     processingTime = 3500\<rparr>"

definition fact_agent :: agent where
  "fact_agent = \<lparr>agent_id = ''fact'', agent_name = ''Fact Verification Agent'',
     agent_keywords = [''study'', ''research'', ''scientist'', ''data'', ''percent'', ''statistics'', ''academic''],
     processingTime = 4200\<rparr>"

definition scam_agent :: agent where
  "scam_agent = \<lparr>agent_id = ''scam'', agent_name = ''Scam Detection Agent'',
     agent_keywords = [''winner'', ''lottery'', ''money'', ''urgent'', ''fee'', ''prize'', ''cash'', ''inheritance''],
     processingTime = 2800\<rparr>"

definition phishing_agent :: agent where
  "phishing_agent = \<lparr>agent_id = ''phishing'', agent_name = ''Phishing Link Detector'',
     agent_keywords = [''click'', ''link'', ''login'', ''account'', ''verify'', ''security'', ''password'', ''update''],
     processingTime = 3100\<rparr>"

definition image_agent :: agent where
  "image_agent = \<lparr>agent_id = ''image'', agent_name = ''Image Forgery Detector'',
     agent_keywords = [''photo'', ''image'', ''picture'', ''ai-generated'', ''deepfake'', ''manipulated''],
     processingTime = 5500\<rparr>"

definition video_agent :: agent where
  "video_agent = \<lparr>agent_id = ''video'', agent_name = ''Video Forgery Detector'',
     agent_keywords = [''video'', ''deepfake'', ''ai-generated'', ''manipulated'', ''synthetic''],
     processingTime = 6800\<rparr>"

definition agents :: "agent list" where
  "agents = [news_agent, fact_agent, scam_agent, phishing_agent, image_agent, video_agent]"

section \<open>Agent selection\<close>

subsection \<open>\<open>VerificationSystem.selectAgents\<close> (bot)\<close>

text \<open>
  \<open>content.toLowerCase()\<close> is the first thing evaluated: on a value that is not a string it
  throws a TypeError (the messages are V8's). On a string the agents whose keyword occurs
  are kept in declaration order; when none matches, \<open>find\<close> looks up news and fact, and
  \<open>filter(Boolean)\<close> drops a lookup that found nothing.
\<close>

definition find_agent :: "string \<Rightarrow> agent list" where
  "find_agent i = (case find (\<lambda>a. agent_id a = i) agents of None \<Rightarrow> [] | Some a \<Rightarrow> [a])"

definition selectAgents_string :: "string \<Rightarrow> agent list" where
  "selectAgents_string content =
     (let contentLower = toLowerCase content;
          selectedAgents = filter (\<lambda>agent. some_keyword toLowerCase contentLower (agent_keywords agent)) agents
      in if length selectedAgents = 0
         then selectedAgents @ find_agent ''news'' @ find_agent ''fact''
         else selectedAgents)"

fun selectAgents :: "js_value \<Rightarrow> js_error + agent list" where
  "selectAgents (JString content) = Inr (selectAgents_string content)"
| "selectAgents JUndefined =
     Inl (TypeError ''Cannot read properties of undefined (reading 'toLowerCase')'')"
| "selectAgents JNull =
     Inl (TypeError ''Cannot read properties of null (reading 'toLowerCase')'')"
| "selectAgents v = Inl (TypeError ''content.toLowerCase is not a function'')"

subsection \<open>\<open>AgentSelector.determineActiveAgents\<close> (web front end)\<close>

definition triggers :: "(string \<times> string list) list" where
  "triggers =
     [(''news'', [''news'', ''breaking'', ''report'', ''journalist'', ''media'', ''press'', ''headline'', ''story'']),
      (''fact'', [''research'', ''study'', ''scientist'', ''professor'', ''university'', ''published'', ''data'',
                  ''statistics'', ''percent'', ''%'', ''climate'', ''medical'', ''health'']),
      (''scam'', [''winner'', ''lottery'', ''prize'', ''money'', ''fee'', ''transfer'', ''bank'', ''account'',
                  ''urgent'', ''limited time'', ''congratulations'', ''claim'', ''inheritance'']),
      (''phishing'', [''click'', ''link'', ''http'', ''www'', ''login'', ''password'', ''secure'', ''verify'',
                      ''account'', ''suspended'', ''expired'']),
      (''image'', [''image'', ''photo'', ''picture'', ''edited'', ''photoshop'', ''fake photo'', ''manipulated'']),
      (''video'', [''video'', ''footage'', ''clip'', ''deepfake'', ''recorded'', ''filmed''])]"

text \<open>The keys of the \<open>AGENTS\<close> object of the web front end, in declaration order.\<close>

definition AGENTS_ids :: "string list" where
  "AGENTS_ids = [''news'', ''fact'', ''scam'', ''phishing'', ''image'', ''video'']"

text \<open>
  The regular expression \<open>/https?:\/\/[^\s]+/\<close>: somewhere \<open>http://\<close> or \<open>https://\<close>
  is followed by at least one character that is not white space.
\<close>

definition is_space :: "char \<Rightarrow> bool" where
  "is_space c = (c = CHR '' '' \<or> (9 \<le> (of_char c :: nat) \<and> (of_char c :: nat) \<le> 13))"

definition url_after :: "string \<Rightarrow> string \<Rightarrow> bool" where
  "url_after scheme s =
     (prefix scheme s \<and> (case drop (length scheme) s of [] \<Rightarrow> False | c # _ \<Rightarrow> \<not> is_space c))"

fun matches_url :: "string \<Rightarrow> bool" where
  "matches_url [] = False"
| "matches_url (c # s) =
     (url_after ''http://'' (c # s) \<or> url_after ''https://'' (c # s) \<or> matches_url s)"

text \<open>One turn of the loop over \<open>Object.entries(triggers)\<close>.\<close>

definition check_trigger :: "string \<Rightarrow> string list \<Rightarrow> string \<times> string list \<Rightarrow> string list" where
  "check_trigger contentLower activeAgents entry =
     (case entry of (agentId, kws) \<Rightarrow>
        if some_keyword (\<lambda>k. k) contentLower kws
        then (if agentId \<in> set activeAgents then activeAgents else activeAgents @ [agentId])
        else activeAgents)"

definition determineActiveAgents :: "string \<Rightarrow> string list" where
  "determineActiveAgents content =
     (let contentLower = toLowerCase content;
          activeAgents0 = (if matches_url contentLower then [''phishing''] else []);
          activeAgents1 = foldl (check_trigger contentLower) activeAgents0 triggers;
          activeAgents = (if length activeAgents1 = 0 then activeAgents1 @ [''news'', ''fact'']
                          else activeAgents1)
      in if length activeAgents > 4 then take 4 activeAgents else activeAgents)"

section \<open>Analyzer results and their aggregation\<close>

text \<open>
  What \<open>generateAgentResponse\<close> returns, and what \<open>processAgent\<close> makes of it. Times
  are milliseconds; a time stamp is the clock reading it was taken at.
\<close>

record response =
  rs_verdict :: string
  rs_confidence :: rat
  rs_evidence :: "string list"
  rs_recommendations :: "string list"

record agent_result =
  ar_agent :: string
  ar_name :: string
  ar_verdict :: string
  ar_confidence :: rat
  ar_evidence :: "string list"
  ar_recommendations :: "string list"
  ar_processingTime :: int
  ar_timestamp :: int

record overall_result =
  or_verdict :: string
  or_confidence :: "int option"
  or_summary :: string
  or_riskLevel :: string

text \<open>
  JavaScript numbers are IEEE 754 doubles: the result of every addition and division is
  rounded to a representable number. The model computes on rationals and takes this
  rounding as a parameter \<open>rnd\<close>, applied after each arithmetic operation (the identity
  gives exact arithmetic). \<open>None\<close> stands for \<open>NaN\<close>, which is what \<open>0 / 0\<close> gives for
  an empty list; every comparison with \<open>NaN\<close> is false.
\<close>

definition avgConfidence :: "(rat \<Rightarrow> rat) \<Rightarrow> agent_result list \<Rightarrow> rat option" where
  "avgConfidence rnd agentResults =
     (let total = foldl (\<lambda>sum r. rnd (sum + ar_confidence r)) 0 agentResults
      in if length agentResults = 0 then None
         else Some (rnd (total / of_nat (length agentResults))))"

definition greater_than :: "rat option \<Rightarrow> rat \<Rightarrow> bool" where
  "greater_than x y = (case x of None \<Rightarrow> False | Some a \<Rightarrow> a > y)"

text \<open>\<open>Math.round\<close>: the nearest integer, a tie going to the larger one.\<close>

definition math_round :: "rat option \<Rightarrow> int option" where
  "math_round x = map_option (\<lambda>a. \<lfloor>a + 1 / 2\<rfloor>) x"

fun to_string :: "nat \<Rightarrow> string" where
  "to_string n =
     (if n < 10 then [char_of (48 + n)] else to_string (n div 10) @ [char_of (48 + n mod 10)])"

declare to_string.simps [simp del]

text \<open>The leading emoji of each summary is written as its UTF-8 bytes.\<close>

definition generateSummary :: "string \<Rightarrow> agent_result list \<Rightarrow> string" where
  "generateSummary verdict agentResults =
     (let agentCount = to_string (length agentResults) in
      if verdict = ''DANGEROUS'' then
        map char_of [0xF0, 0x9F, 0x9A, 0xA8 :: nat] @ '' DANGEROUS: '' @ agentCount
          @ '' agents detected significant threats. Avoid interaction.''
      else if verdict = ''FALSE'' then
        map char_of [0xE2, 0x9D, 0x8C :: nat] @ '' FALSE: Content appears to be misinformation based on ''
          @ agentCount @ '' agent analysis.''
      else if verdict = ''VERIFIED'' then
        map char_of [0xE2, 0x9C, 0x85 :: nat] @ '' VERIFIED: Content appears legitimate according to ''
          @ agentCount @ '' agents.''
      else if verdict = ''SUSPICIOUS'' then
        map char_of [0xE2, 0x9A, 0xA0, 0xEF, 0xB8, 0x8F :: nat]
          @ '' SUSPICIOUS: Some concerning patterns detected. Exercise caution.''
      else
        map char_of [0xE2, 0x9D, 0x93 :: nat] @ '' UNVERIFIED: Unable to determine authenticity. ''
          @ agentCount @ '' agents need more information.'')"

definition calculateRiskLevel :: "string \<Rightarrow> rat option \<Rightarrow> string" where
  "calculateRiskLevel verdict confidence =
     (if verdict = ''DANGEROUS'' then ''CRITICAL''
      else if verdict = ''FALSE'' \<and> greater_than confidence 90 then ''HIGH''
      else if verdict = ''SUSPICIOUS'' then ''MEDIUM''
      else if verdict = ''UNVERIFIED'' then ''LOW''
      else ''MINIMAL'')"

definition calculateOverallResult :: "(rat \<Rightarrow> rat) \<Rightarrow> agent_result list \<Rightarrow> string \<Rightarrow> overall_result" where
  "calculateOverallResult rnd agentResults content =
     (let verdicts = map ar_verdict agentResults;
          avg = avgConfidence rnd agentResults;
          overallVerdict =
            (if ''MALICIOUS'' \<in> set verdicts \<or> ''SCAM'' \<in> set verdicts then ''DANGEROUS''
             else if ''FALSE'' \<in> set verdicts then ''FALSE''
             else if ''TRUE'' \<in> set verdicts \<and> greater_than avg 80 then ''VERIFIED''
             else if ''SUSPICIOUS'' \<in> set verdicts then ''SUSPICIOUS''
             else ''UNVERIFIED'')
      in \<lparr>or_verdict = overallVerdict,
          or_confidence = math_round avg,
          or_summary = generateSummary overallVerdict agentResults,
          or_riskLevel = calculateRiskLevel overallVerdict avg\<rparr>)"

section \<open>Running the analyzers\<close>

text \<open>
  \<open>processAgent\<close> sleeps, asks \<open>generateAgentResponse\<close> for a response and wraps it. The
  response generator is the pluggable part of the system: it is a parameter \<open>analyze\<close>
  here, which says for an agent and a content how long the invocation takes and whether it
  returns a response or throws.
\<close>

type_synonym analyzer = "agent \<Rightarrow> string \<Rightarrow> int \<times> (js_error + response)"

definition processAgent :: "analyzer \<Rightarrow> int \<Rightarrow> agent \<Rightarrow> string \<Rightarrow> int \<times> (js_error + agent_result)" where
  "processAgent analyze startTime agent content =
     (case analyze agent content of
        (elapsed, Inl e) \<Rightarrow> (elapsed, Inl e)
      | (elapsed, Inr response) \<Rightarrow>
          (elapsed, Inr \<lparr>ar_agent = agent_id agent,
                         ar_name = agent_name agent,
                         ar_verdict = rs_verdict response,
                         ar_confidence = rs_confidence response,
                         ar_evidence = rs_evidence response,
                         ar_recommendations = rs_recommendations response,
                         ar_processingTime = elapsed,
                         ar_timestamp = startTime + elapsed\<rparr>))"

text \<open>
  \<open>Promise.all\<close> over promises that settle after the given times: it rejects with the
  reason of the promise that rejects first (the earlier one in the list when two reject at
  the same time), and otherwise fulfils, once the last promise has, with all values in
  the order of the list.
\<close>

fun promise_all :: "(int \<times> (js_error + 'a)) list \<Rightarrow> int \<times> (js_error + 'a list)" where
  "promise_all [] = (0, Inr [])"
| "promise_all ((t, Inl e) # ps) =
     (case promise_all ps of
        (t', Inl e') \<Rightarrow> if t' < t then (t', Inl e') else (t, Inl e)
      | (t', Inr xs) \<Rightarrow> (t, Inl e))"
| "promise_all ((t, Inr x) # ps) =
     (case promise_all ps of
        (t', Inl e') \<Rightarrow> (t', Inl e')
      | (t', Inr xs) \<Rightarrow> (max t t', Inr (x # xs)))"

section \<open>The verification store\<close>

text \<open>
  \<open>activeVerifications\<close> is a JavaScript \<open>Map\<close>: an association list in insertion order,
  where \<open>set\<close> replaces the value of a key that is present and appends otherwise. A stored
  record is an object whose properties may be absent (\<open>None\<close>): the object written when a
  verification starts has the first five, and the later writes copy what is there.
\<close>

record verification_result =
  vr_verificationId :: string
  vr_content :: string
  vr_timestamp :: int
  vr_agents :: "agent list"
  vr_agentResults :: "agent_result list"
  vr_overallResult :: overall_result
  vr_processingTime :: int

record verification =
  v_userId :: "js_value option"
  v_content :: "string option"
  v_agents :: "agent list option"
  v_startTime :: "int option"
  v_status :: "string option"
  v_result :: "verification_result option"
  v_error :: "string option"

record vs_state =
  activeVerifications :: "(string \<times> verification) list"
  totalVerifications :: nat

definition initial_state :: vs_state where
  "initial_state = \<lparr>activeVerifications = [], totalVerifications = 0\<rparr>"

definition empty_object :: verification where
  "empty_object = \<lparr>v_userId = None, v_content = None, v_agents = None, v_startTime = None,
     v_status = None, v_result = None, v_error = None\<rparr>"

text \<open>\<open>{...this.activeVerifications.get(id)}\<close>: spreading \<open>undefined\<close> gives an empty object.\<close>

definition spread :: "verification option \<Rightarrow> verification" where
  "spread v = (case v of None \<Rightarrow> empty_object | Some r \<Rightarrow> r)"

section \<open>\<open>VerificationSystem.verifyContent\<close>\<close>

text \<open>
  \<open>verifyContent\<close> is an \<open>async\<close> function with one \<open>await\<close>. The part before the
  \<open>await\<close> runs at once when the function is called: \<open>verifyContent_begin\<close>. The part
  after it runs when \<open>Promise.all\<close> has settled, on the store as it is by then:
  \<open>verifyContent_resume\<close>. \<open>verifyContent\<close> is a call with no other operation on the
  store in between.

  \<open>uuid\<close> is what \<open>uuidv4()\<close> returns and \<open>now\<close> the clock reading; a session id is a
  string, \<open>None\<close> when the argument is left out or \<open>null\<close>.
\<close>

text \<open>\<open>verificationId || uuidv4()\<close>: an absent or empty id is replaced by a fresh one.\<close>

definition id_or_uuid :: "string option \<Rightarrow> string \<Rightarrow> string" where
  "id_or_uuid verificationId uuid =
     (case verificationId of None \<Rightarrow> uuid | Some v \<Rightarrow> if v = [] then uuid else v)"

definition verifyContent_begin ::
  "js_value \<Rightarrow> js_value \<Rightarrow> string option \<Rightarrow> string \<Rightarrow> int \<Rightarrow> vs_state
     \<Rightarrow> (js_error + string \<times> string \<times> agent list) \<times> vs_state" where
  "verifyContent_begin content userId verificationId uuid now st =
     (let vid = id_or_uuid verificationId uuid in
      case selectAgents content of
        Inl e \<Rightarrow> (Inl e, st)
      | Inr selectedAgents \<Rightarrow>
          (case content of
             JString text \<Rightarrow>
               (Inr (vid, text, selectedAgents),
                st\<lparr>activeVerifications :=
                     AList.update vid
                       \<lparr>v_userId = Some userId, v_content = Some text, v_agents = Some selectedAgents,
                        v_startTime = Some now, v_status = Some ''processing'',
                        v_result = None, v_error = None\<rparr>
                       (activeVerifications st),
                   totalVerifications := totalVerifications st + 1\<rparr>)
           | _ \<Rightarrow> (Inl (TypeError ''content.toLowerCase is not a function''), st)))"

text \<open>The \<open>catch\<close> block: the record is marked failed, the message stored, the error rethrown.\<close>

definition fail_verification ::
  "string \<Rightarrow> js_error \<Rightarrow> vs_state \<Rightarrow> (js_error + verification_result) \<times> vs_state" where
  "fail_verification vid error st =
     (Inl error,
      st\<lparr>activeVerifications :=
           AList.update vid
             ((spread (map_of (activeVerifications st) vid))
                \<lparr>v_status := Some ''failed'', v_error := Some (message error)\<rparr>)
             (activeVerifications st)\<rparr>)"

definition verifyContent_resume ::
  "(rat \<Rightarrow> rat) \<Rightarrow> string \<Rightarrow> string \<Rightarrow> agent list \<Rightarrow> js_error + agent_result list \<Rightarrow> int \<Rightarrow> vs_state
     \<Rightarrow> (js_error + verification_result) \<times> vs_state" where
  "verifyContent_resume rnd vid content selectedAgents settled now st =
     (case settled of
        Inl error \<Rightarrow> fail_verification vid error st
      | Inr agentResults \<Rightarrow>
          (let overallResult = calculateOverallResult rnd agentResults content in
           case map_of (activeVerifications st) vid of
             None \<Rightarrow>
               fail_verification vid
                 (TypeError ''Cannot read properties of undefined (reading 'startTime')'') st
           | Some v \<Rightarrow>
               (case v_startTime v of
                  None \<Rightarrow>
                    fail_verification vid
                      (TypeError ''Cannot read properties of undefined (reading 'getTime')'') st
                | Some t0 \<Rightarrow>
                    (let result = \<lparr>vr_verificationId = vid, vr_content = content, vr_timestamp = now,
                                    vr_agents = selectedAgents, vr_agentResults = agentResults,
                                    vr_overallResult = overallResult,
                                    vr_processingTime = now - t0\<rparr>
                     in (Inr result,
                         st\<lparr>activeVerifications :=
                              AList.update vid
                                (v\<lparr>v_status := Some ''completed'', v_result := Some result\<rparr>)
                                (activeVerifications st)\<rparr>)))))"

definition verifyContent ::
  "(rat \<Rightarrow> rat) \<Rightarrow> analyzer \<Rightarrow> js_value \<Rightarrow> js_value \<Rightarrow> string option \<Rightarrow> string \<Rightarrow> int \<Rightarrow> vs_state
     \<Rightarrow> (js_error + verification_result) \<times> vs_state" where
  "verifyContent rnd analyze content userId verificationId uuid now st =
     (case verifyContent_begin content userId verificationId uuid now st of
        (Inl e, st') \<Rightarrow> (Inl e, st')
      | (Inr (vid, text, selectedAgents), st') \<Rightarrow>
          (case promise_all (map (\<lambda>agent. processAgent analyze now agent text) selectedAgents) of
             (elapsed, settled) \<Rightarrow>
               verifyContent_resume rnd vid text selectedAgents settled (now + elapsed) st'))"

section \<open>Queries and the cleanup sweep\<close>

definition getActiveVerifications :: "vs_state \<Rightarrow> nat" where
  "getActiveVerifications st =
     length (filter (\<lambda>v. v_status v = Some ''processing'') (map snd (activeVerifications st)))"

definition getTotalVerifications :: "vs_state \<Rightarrow> nat" where
  "getTotalVerifications st = totalVerifications st"

definition getVerification :: "string \<Rightarrow> vs_state \<Rightarrow> verification option" where
  "getVerification vid st = map_of (activeVerifications st) vid"

text \<open>
  The loop of \<open>cleanupOldVerifications\<close> over the entries of the map. Reading
  \<open>startTime.getTime()\<close> of a record without a start time throws, and the deletions made
  so far stay.
\<close>

fun cleanup_loop ::
  "int \<Rightarrow> (string \<times> verification) list \<Rightarrow> (string \<times> verification) list
     \<Rightarrow> js_error option \<times> (string \<times> verification) list" where
  "cleanup_loop oneHourAgo [] m = (None, m)"
| "cleanup_loop oneHourAgo ((vid, verification) # entries) m =
     (case v_startTime verification of
        None \<Rightarrow> (Some (TypeError ''Cannot read properties of undefined (reading 'getTime')''), m)
      | Some t \<Rightarrow>
          cleanup_loop oneHourAgo entries (if t < oneHourAgo then AList.delete vid m else m))"

definition cleanupOldVerifications :: "int \<Rightarrow> vs_state \<Rightarrow> js_error option \<times> vs_state" where
  "cleanupOldVerifications now st =
     (let oneHourAgo = now - (60 * 60 * 1000) in
      case cleanup_loop oneHourAgo (activeVerifications st) (activeVerifications st) of
        (err, m) \<Rightarrow> (err, st\<lparr>activeVerifications := m\<rparr>))"

section \<open>The handler of \<open>POST /api/verify\<close>\<close>

text \<open>
  The handler checks the content before it calls \<open>verifyContent\<close>. \<open>validateContent\<close>
  (the pattern screen of \<open>SecurityUtils\<close>) and the \<open>development\<close> flag of \<open>NODE_ENV\<close> are
  parameters.
\<close>

record request_body =
  rb_content :: js_value
  rb_userId :: js_value
  rb_sessionId :: "string option"

datatype http_response =
    Json200 string verification_result
  | Json400 string
  | Json500 string string

definition api_verify ::
  "(rat \<Rightarrow> rat) \<Rightarrow> analyzer \<Rightarrow> (js_value \<Rightarrow> bool) \<Rightarrow> bool \<Rightarrow> request_body \<Rightarrow> string \<Rightarrow> int \<Rightarrow> vs_state
     \<Rightarrow> http_response \<times> vs_state" where
  "api_verify rnd analyze validateContent development body uuid now st =
     (let content = rb_content body;
          userId = (if rb_userId body = JUndefined then JString ''web-user'' else rb_userId body);
          sessionId = rb_sessionId body
      in if \<not> truthy content \<or> typeof content \<noteq> ''string'' then
           (Json400 ''Content is required and must be a string'', st)
         else if \<not> validateContent content then
           (Json400 ''Content contains potentially harmful elements'', st)
         else
           (let verificationId = id_or_uuid sessionId uuid
            in case verifyContent rnd analyze content userId (Some verificationId) uuid now st of
                 (Inr result, st') \<Rightarrow> (Json200 verificationId result, st')
               | (Inl error, st') \<Rightarrow>
                   (Json500 ''Internal server error''
                      (if development then message error else ''Verification failed''), st')))"

section \<open>Reachable stores\<close>


section \<open>Analyzers and stores used as concrete inputs\<close>

text \<open>
  Exact arithmetic; an analyzer that answers every invocation with the neutral response
  of the stub after the agent's configured processing time; one whose fact agent throws;
  and the store after a first verification under the session id \<open>s1\<close>.
\<close>

definition exact :: "rat \<Rightarrow> rat" where
  "exact x = x"

definition steady_analyzer :: analyzer where
  "steady_analyzer agent content =
     (processingTime agent,
      Inr \<lparr>rs_verdict = ''UNVERIFIED'', rs_confidence = 65,
           rs_evidence = [''Insufficient information for definitive analysis''],
           rs_recommendations = [''Seek additional sources'', ''Apply critical thinking'']\<rparr>)"

definition failing_analyzer :: analyzer where
  "failing_analyzer agent content =
     (if agent_id agent = ''fact'' then (100, Inl (Error ''analysis backend unavailable''))
      else steady_analyzer agent content)"

definition store_s1 :: vs_state where
  "store_s1 =
     snd (verifyContent exact steady_analyzer (JString ''Breaking news'') (JString ''u1'')
            (Some ''s1'') ''uuid-1'' 1000 initial_state)"



section \<open>A property of stored records\<close>


section \<open>Strings\<close>

lemma str_includes_sublist: "str_includes s k \<longleftrightarrow> sublist k s"
  by (induction s) (auto simp: sublist_Cons_right)

lemma toLowerCase_append: "toLowerCase (a @ b) = toLowerCase a @ toLowerCase b"
  by (simp add: toLowerCase_def)

lemma str_includes_lower:
  "str_includes s k \<Longrightarrow> str_includes (toLowerCase s) (toLowerCase k)"
  unfolding str_includes_sublist sublist_def by (metis toLowerCase_append)

lemma str_includes_trans:
  "str_includes s k \<Longrightarrow> str_includes k j \<Longrightarrow> str_includes s j"
  unfolding str_includes_sublist by (rule sublist_order.order_trans)

lemma http_lower:
  assumes "str_includes content ''http://'' \<or> str_includes content ''https://''"
  shows "str_includes (toLowerCase content) ''http''"
proof -
  have l1: "toLowerCase ''http://'' = ''http://''" by code_simp
  have l2: "toLowerCase ''https://'' = ''https://''" by code_simp
  have s1: "str_includes ''http://'' ''http''" by code_simp
  have s2: "str_includes ''https://'' ''http''" by code_simp
  from assms show ?thesis
  proof
    assume "str_includes content ''http://''"
    from str_includes_lower[OF this] have "str_includes (toLowerCase content) ''http://''"
      by (simp only: l1)
    then show ?thesis using s1 by (rule str_includes_trans)
  next
    assume "str_includes content ''https://''"
    from str_includes_lower[OF this] have "str_includes (toLowerCase content) ''https://''"
      by (simp only: l2)
    then show ?thesis using s2 by (rule str_includes_trans)
  qed
qed

section \<open>Agent selection\<close>

subsection \<open>The loop of the web selector in closed form\<close>

lemma foldl_check_trigger:
  "distinct (map fst ts) \<Longrightarrow>
   foldl (check_trigger cl) acc ts =
     acc @ filter (\<lambda>k. k \<notin> set acc)
             (map fst (filter (\<lambda>e. some_keyword (\<lambda>k. k) cl (snd e)) ts))"
proof (induction ts arbitrary: acc)
  case Nil
  then show ?case by simp
next
  case (Cons e ts)
  obtain k kws where e: "e = (k, kws)" by (cases e)
  from Cons.prems have d: "distinct (map fst ts)" and nk: "k \<notin> fst ` set ts"
    by (auto simp: e)
  have same: "filter (\<lambda>k'. k' \<notin> set (acc @ [k])) (map fst (filter P ts))
                = filter (\<lambda>k'. k' \<notin> set acc) (map fst (filter P ts))" for P
    using nk by (intro filter_cong) (auto simp: image_iff)
  show ?case
    using Cons.IH[OF d] same by (simp add: e check_trigger_def)
qed

lemma triggers_distinct: "distinct (map fst triggers)"
  by (simp add: triggers_def)

lemma triggers_keys: "map fst triggers = AGENTS_ids"
  by (simp add: triggers_def AGENTS_ids_def)

lemma determineActiveAgents_alt:
  "determineActiveAgents content =
     (let cl = toLowerCase content;
          hits = map fst (filter (\<lambda>e. some_keyword (\<lambda>k. k) cl (snd e)) triggers);
          a1 = (if matches_url cl then ''phishing'' # filter (\<lambda>k. k \<noteq> ''phishing'') hits
                else hits);
          a2 = (if a1 = [] then [''news'', ''fact''] else a1)
      in take 4 a2)"
  by (simp add: determineActiveAgents_def Let_def foldl_check_trigger[OF triggers_distinct])

lemma subseq_set: "subseq xs ys \<Longrightarrow> set xs \<subseteq> set ys"
  by (auto dest: list_emb_set)

lemma subseq_take_trans: "subseq xs ys \<Longrightarrow> subseq (take n xs) ys"
  by (meson prefix_imp_subseq subseq_order.order_trans take_is_prefix)

lemma web_selection:
  fixes content :: string
  defines "r \<equiv> determineActiveAgents content"
  shows "r \<noteq> [] \<and> distinct r \<and> set r \<subseteq> set AGENTS_ids \<and> length r \<le> 4 \<and>
         (if matches_url (toLowerCase content)
          then \<exists>rest. r = ''phishing'' # rest \<and> subseq rest AGENTS_ids
          else subseq r AGENTS_ids)"
proof -
  define cl where "cl = toLowerCase content"
  define hits where "hits = map fst (filter (\<lambda>e. some_keyword (\<lambda>k. k) cl (snd e)) triggers)"
  have sub: "subseq hits AGENTS_ids"
    unfolding hits_def triggers_keys[symmetric] by (intro subseq_map subseq_filter_left)
  have dist: "distinct hits"
    unfolding hits_def by (intro distinct_map_filter triggers_distinct)
  show ?thesis
  proof (cases "matches_url cl")
    case True
    define rest where "rest = take 3 (filter (\<lambda>k. k \<noteq> ''phishing'') hits)"
    have r: "r = ''phishing'' # rest"
      using True by (simp add: r_def determineActiveAgents_alt Let_def cl_def hits_def rest_def)
    have "subseq (filter (\<lambda>k. k \<noteq> ''phishing'') hits) AGENTS_ids"
      using sub by (meson subseq_filter_left subseq_order.order_trans)
    then have srest: "subseq rest AGENTS_ids"
      unfolding rest_def by (rule subseq_take_trans)
    have drest: "distinct rest" "''phishing'' \<notin> set rest"
      using dist by (auto simp: rest_def dest: in_set_takeD)
    have "set rest \<subseteq> set AGENTS_ids"
      using srest by (rule subseq_set)
    moreover have "''phishing'' \<in> set AGENTS_ids" by (simp add: AGENTS_ids_def)
    moreover have "length rest \<le> 3" by (simp add: rest_def)
    ultimately show ?thesis
      using True r srest drest by (simp add: cl_def)
  next
    case False
    define a2 where "a2 = (if hits = [] then [''news'', ''fact''] else hits)"
    have r: "r = take 4 a2"
      using False by (simp add: r_def determineActiveAgents_alt Let_def cl_def hits_def a2_def)
    have "subseq [''news'', ''fact''] AGENTS_ids" by (simp add: AGENTS_ids_def)
    then have sa2: "subseq a2 AGENTS_ids" using sub by (simp add: a2_def)
    have da2: "distinct a2" using dist by (simp add: a2_def)
    have na2: "a2 \<noteq> []" by (simp add: a2_def)
    have sr: "subseq r AGENTS_ids" unfolding r using sa2 by (rule subseq_take_trans)
    have "set r \<subseteq> set AGENTS_ids" using sr by (rule subseq_set)
    moreover have "distinct r" unfolding r using da2 by simp
    moreover have "r \<noteq> []" unfolding r using na2 by (cases a2) simp_all
    moreover have "length r \<le> 4" unfolding r by simp
    ultimately show ?thesis using False sr by (simp add: cl_def)
  qed
qed

subsection \<open>The bot selector\<close>

lemma find_agent_news: "find_agent ''news'' = [news_agent]"
  by (simp add: find_agent_def agents_def news_agent_def)

lemma find_agent_fact: "find_agent ''fact'' = [fact_agent]"
  by (simp add: find_agent_def agents_def news_agent_def fact_agent_def)

lemma agents_distinct: "distinct (map agent_id agents)"
  by (simp add: agents_def news_agent_def fact_agent_def scam_agent_def phishing_agent_def
      image_agent_def video_agent_def)

lemma bot_selection:
  fixes content :: string
  defines "sel \<equiv> selectAgents_string content"
  shows "sel \<noteq> [] \<and> distinct (map agent_id sel) \<and> subseq sel agents"
proof -
  define hits where
    "hits = filter (\<lambda>agent. some_keyword toLowerCase (toLowerCase content) (agent_keywords agent))
              agents"
  have sel: "sel = (if hits = [] then [news_agent, fact_agent] else hits)"
    by (simp add: sel_def selectAgents_string_def Let_def hits_def find_agent_news find_agent_fact)
  have "subseq hits agents" by (simp add: hits_def)
  moreover have "subseq [news_agent, fact_agent] agents" by (simp add: agents_def)
  ultimately have s: "subseq sel agents" by (simp add: sel)
  have "distinct (map agent_id hits)"
    unfolding hits_def by (intro distinct_map_filter agents_distinct)
  moreover have "distinct (map agent_id [news_agent, fact_agent])"
    by (simp add: news_agent_def fact_agent_def)
  ultimately have d: "distinct (map agent_id sel)" by (simp add: sel)
  have "sel \<noteq> []" by (simp add: sel)
  with s d show ?thesis by simp
qed

text \<open>
  C2, as the code has it. For every content string both selectors return a non-empty,
  duplicate-free list of configured analyzer ids. The bot's \<open>selectAgents\<close> lists them in
  declaration order. The web front end's \<open>determineActiveAgents\<close> returns at most four
  ids; they are in declaration order when the content has no URL, and when it has one the
  list is \<open>phishing\<close> followed by ids in declaration order.
\<close>

theorem selection_shape:
  "(\<exists>sel. selectAgents (JString content) = Inr sel \<and> sel \<noteq> []
         \<and> distinct (map agent_id sel)
         \<and> subseq (map agent_id sel) (map agent_id agents))
   \<and> determineActiveAgents content \<noteq> []
   \<and> distinct (determineActiveAgents content)
   \<and> set (determineActiveAgents content) \<subseteq> set AGENTS_ids
   \<and> length (determineActiveAgents content) \<le> 4
   \<and> (if matches_url (toLowerCase content)
      then \<exists>rest. determineActiveAgents content = ''phishing'' # rest \<and> subseq rest AGENTS_ids
      else subseq (determineActiveAgents content) AGENTS_ids)"
proof -
  have "subseq (map agent_id (selectAgents_string content)) (map agent_id agents)"
    using bot_selection[of content] by (intro subseq_map) simp
  then show ?thesis
    using bot_selection[of content] web_selection[of content] by simp
qed

theorem selection_shape_witness:
  "selectAgents (JString ''Breaking: click http://x.y'') = Inr [news_agent, phishing_agent]
   \<and> determineActiveAgents ''Breaking: click http://x.y'' = [''phishing'', ''news'']
   \<and> matches_url (toLowerCase ''Breaking: click http://x.y'')
   \<and> subseq [''news''] AGENTS_ids
   \<and> subseq (map agent_id [news_agent, phishing_agent]) (map agent_id agents)"
proof -
  have e1: "selectAgents (JString ''Breaking: click http://x.y'') = Inr [news_agent, phishing_agent]"
    by code_simp
  have e2: "determineActiveAgents ''Breaking: click http://x.y'' = [''phishing'', ''news'']"
    by code_simp
  have e3: "matches_url (toLowerCase ''Breaking: click http://x.y'')"
    by code_simp
  from selection_shape[of "''Breaking: click http://x.y''"] e1 e2 e3 show ?thesis
    by simp
qed

text \<open>
  C2 as stated fails: on a content with a URL and a news keyword the web selector puts
  \<open>phishing\<close> before \<open>news\<close>, against the declaration order.
\<close>

theorem selection_order_counterexample:
  "determineActiveAgents ''breaking http://x.y'' = [''phishing'', ''news'']
   \<and> \<not> subseq (determineActiveAgents ''breaking http://x.y'') AGENTS_ids"
  by code_simp

text \<open>
  C3 at the bot selector: the content \<open>http://example.com\<close> contains a URL and matches
  no keyword, and \<open>selectAgents\<close> returns the default pair, without the phishing agent.
\<close>

theorem selectAgents_ignores_url:
  "str_includes ''http://example.com'' ''http://''
   \<and> selectAgents (JString ''http://example.com'') = Inr [news_agent, fact_agent]
   \<and> ''phishing'' \<notin> set (map agent_id [news_agent, fact_agent])"
  by code_simp

text \<open>The web selector does include the phishing id whenever the content has a URL.\<close>

lemma phishing_hit:
  assumes "str_includes cl ''http''"
  shows "''phishing'' \<in> set (take 4 (map fst (filter (\<lambda>e. some_keyword (\<lambda>k. k) cl (snd e)) triggers)))"
proof -
  have "some_keyword (\<lambda>k. k) cl
          [''click'', ''link'', ''http'', ''www'', ''login'', ''password'', ''secure'', ''verify'',
           ''account'', ''suspended'', ''expired'']"
    using assms by (simp add: some_keyword_def)
  then show ?thesis by (simp add: triggers_def)
qed

lemma determineActiveAgents_url_phishing:
  assumes "str_includes content ''http://'' \<or> str_includes content ''https://''"
  shows "''phishing'' \<in> set (determineActiveAgents content)"
  using phishing_hit[OF http_lower[OF assms]]
  by (auto simp: determineActiveAgents_alt Let_def)

section \<open>Aggregation\<close>




section \<open>Running the analyzers\<close>

lemma promise_all_Inl_mem:
  "promise_all ps = (t, Inl e) \<Longrightarrow> (t, Inl e) \<in> set ps"
proof (induction ps arbitrary: t e rule: promise_all.induct)
  case 1
  then show ?case by simp
next
  case (2 t0 e0 ps)
  then show ?case by (cases "promise_all ps") (auto split: sum.splits if_splits)
next
  case (3 t0 x ps)
  then show ?case by (cases "promise_all ps") (auto split: sum.splits)
qed

lemma promise_all_rejects:
  "(t, Inl e) \<in> set ps \<Longrightarrow> \<exists>t' e'. promise_all ps = (t', Inl e')"
proof (induction ps rule: promise_all.induct)
  case 1
  then show ?case by simp
next
  case (2 t0 e0 ps)
  then show ?case by (cases "promise_all ps") (auto split: sum.splits)
next
  case (3 t0 x ps)
  then show ?case by (cases "promise_all ps") (auto split: sum.splits)
qed


lemma processAgent_Inl:
  "snd (analyze a text) = Inl e \<Longrightarrow>
   processAgent analyze now a text = (fst (analyze a text), Inl e)"
  by (cases "analyze a text") (simp add: processAgent_def)


lemma processAgent_raised:
  "processAgent analyze now a text = (t, Inl e) \<Longrightarrow> analyze a text = (t, Inl e)"
  by (cases "analyze a text") (auto simp: processAgent_def split: sum.splits)


section \<open>The two halves of \<open>verifyContent\<close>\<close>

lemma begin_string:
  "verifyContent_begin (JString text) userId verificationId uuid now st =
     (Inr (id_or_uuid verificationId uuid, text, selectAgents_string text),
      st\<lparr>activeVerifications :=
           AList.update (id_or_uuid verificationId uuid)
             \<lparr>v_userId = Some userId, v_content = Some text,
              v_agents = Some (selectAgents_string text), v_startTime = Some now,
              v_status = Some ''processing'', v_result = None, v_error = None\<rparr>
             (activeVerifications st),
         totalVerifications := totalVerifications st + 1\<rparr>)"
  by (simp add: verifyContent_begin_def Let_def)

lemma begin_not_string:
  "\<forall>s. content \<noteq> JString s \<Longrightarrow>
   \<exists>m. verifyContent_begin content userId verificationId uuid now st = (Inl (TypeError m), st)"
  by (cases content) (simp_all add: verifyContent_begin_def)

lemma resume_rejected:
  "verifyContent_resume rnd vid text ags (Inl e) now st = fail_verification vid e st"
  by (simp add: verifyContent_resume_def)

lemma verifyContent_string:
  "verifyContent rnd analyze (JString text) userId verificationId uuid now st =
     verifyContent_resume rnd (id_or_uuid verificationId uuid) text (selectAgents_string text)
       (snd (promise_all (map (\<lambda>agent. processAgent analyze now agent text)
                            (selectAgents_string text))))
       (now + fst (promise_all (map (\<lambda>agent. processAgent analyze now agent text)
                                  (selectAgents_string text))))
       (snd (verifyContent_begin (JString text) userId verificationId uuid now st))"
  by (simp add: verifyContent_def begin_string split: prod.splits)

lemma verifyContent_not_string:
  assumes "\<forall>s. content \<noteq> JString s"
  shows "\<exists>m. verifyContent rnd analyze content userId verificationId uuid now st
              = (Inl (TypeError m), st)"
proof -
  from begin_not_string[OF assms] obtain m where
    "verifyContent_begin content userId verificationId uuid now st = (Inl (TypeError m), st)"
    by blast
  then show ?thesis by (simp add: verifyContent_def)
qed

lemma resume_total:
  "totalVerifications (snd (verifyContent_resume rnd vid text ags settled now st))
     = totalVerifications st"
  by (simp add: verifyContent_resume_def fail_verification_def Let_def
      split: sum.splits option.splits)

section \<open>Duplicate session ids\<close>

text \<open>
  C1, as the code has it. A call that reuses the id of a session that is running or
  completed is not rejected. Before any analyzer runs it replaces the session's record by a
  fresh one (the new content and selection, the new start time, status \<open>processing\<close>, no
  result, no error) and counts the verification; the analyzers then run as for a new id.
\<close>

theorem reused_session_id_overwrites:
  assumes "vid \<noteq> []"
      and "getVerification vid st = Some old"
      and "v_status old = Some ''processing'' \<or> v_status old = Some ''completed''"
  shows "fst (verifyContent_begin (JString text) userId (Some vid) uuid now st)
           = Inr (vid, text, selectAgents_string text)
       \<and> getVerification vid (snd (verifyContent_begin (JString text) userId (Some vid) uuid now st))
           = Some \<lparr>v_userId = Some userId, v_content = Some text,
                   v_agents = Some (selectAgents_string text), v_startTime = Some now,
                   v_status = Some ''processing'', v_result = None, v_error = None\<rparr>
       \<and> totalVerifications (snd (verifyContent_begin (JString text) userId (Some vid) uuid now st))
           = totalVerifications st + 1"
  using assms(1) by (simp add: begin_string id_or_uuid_def getVerification_def update_conv')

theorem reused_session_id_overwrites_witness:
  "map_option v_status (getVerification ''s1'' store_s1) = Some (Some ''completed'')
   \<and> fst (verifyContent_begin (JString ''lottery'') (JString ''u2'') (Some ''s1'') ''uuid-2'' 9000 store_s1)
       = Inr (''s1'', ''lottery'', [scam_agent])
   \<and> map_option v_status
        (getVerification ''s1''
           (snd (verifyContent_begin (JString ''lottery'') (JString ''u2'') (Some ''s1'') ''uuid-2'' 9000
                   store_s1)))
       = Some (Some ''processing'')
   \<and> totalVerifications
        (snd (verifyContent_begin (JString ''lottery'') (JString ''u2'') (Some ''s1'') ''uuid-2'' 9000
                store_s1)) = 2"
proof -
  have h1: "''s1'' \<noteq> []" by simp
  have h2: "getVerification ''s1'' store_s1 = Some (the (getVerification ''s1'' store_s1))"
    by code_simp
  have h3: "v_status (the (getVerification ''s1'' store_s1)) = Some ''processing''
            \<or> v_status (the (getVerification ''s1'' store_s1)) = Some ''completed''"
    by code_simp
  have sel: "selectAgents_string ''lottery'' = [scam_agent]" by code_simp
  have st: "map_option v_status (getVerification ''s1'' store_s1) = Some (Some ''completed'')"
    by code_simp
  have tot: "totalVerifications store_s1 = 1" by code_simp
  from reused_session_id_overwrites[OF h1 h2 h3, of "''lottery''" "JString ''u2''" "''uuid-2''" 9000]
  show ?thesis by (simp add: sel st tot)
qed

text \<open>
  C1 as stated fails: on the store that holds the completed session \<open>s1\<close>, a second call
  with the id \<open>s1\<close> returns a result, not a failure, and the record of \<open>s1\<close> is another
  one afterwards.
\<close>

theorem duplicate_session_not_rejected:
  "map_option v_status (getVerification ''s1'' store_s1) = Some (Some ''completed'')
   \<and> \<not> isl (fst (verifyContent exact steady_analyzer (JString ''lottery'') (JString ''u2'')
                    (Some ''s1'') ''uuid-2'' 9000 store_s1))
   \<and> getVerification ''s1''
        (snd (verifyContent exact steady_analyzer (JString ''lottery'') (JString ''u2'')
                (Some ''s1'') ''uuid-2'' 9000 store_s1))
       \<noteq> getVerification ''s1'' store_s1"
  by code_simp

section \<open>Content validation\<close>

text \<open>
  C4, as the code has it. The handler of \<open>POST /api/verify\<close> answers an empty or
  non-string content with status 400 before it calls \<open>verifyContent\<close>: the store and the
  counter stay as they are. \<open>verifyContent\<close> itself validates nothing: given a content
  that is not a string it throws (a TypeError, from \<open>content.toLowerCase\<close>) before it
  touches the store or the counter.
\<close>

theorem invalid_content_rejected_at_api:
  assumes "rb_content body = JString [] \<or> (\<forall>s. rb_content body \<noteq> JString s)"
  shows "api_verify rnd analyze validateContent development body uuid now st
           = (Json400 ''Content is required and must be a string'', st)
       \<and> ((\<forall>s. rb_content body \<noteq> JString s) \<longrightarrow>
            isl (fst (verifyContent rnd analyze (rb_content body) userId verificationId uuid now st))
            \<and> snd (verifyContent rnd analyze (rb_content body) userId verificationId uuid now st)
                = st)"
proof -
  have "\<not> truthy (rb_content body) \<or> typeof (rb_content body) \<noteq> ''string''"
    using assms by (cases "rb_content body") auto
  then have "api_verify rnd analyze validateContent development body uuid now st
           = (Json400 ''Content is required and must be a string'', st)"
    by (auto simp: api_verify_def Let_def)
  moreover have "(\<forall>s. rb_content body \<noteq> JString s) \<longrightarrow>
            isl (fst (verifyContent rnd analyze (rb_content body) userId verificationId uuid now st))
            \<and> snd (verifyContent rnd analyze (rb_content body) userId verificationId uuid now st)
                = st"
    using verifyContent_not_string[of "rb_content body" rnd analyze userId verificationId uuid now st]
    by auto
  ultimately show ?thesis by simp
qed

theorem invalid_content_rejected_at_api_witness:
  "api_verify exact steady_analyzer (\<lambda>c. True) False
       \<lparr>rb_content = JString [], rb_userId = JUndefined, rb_sessionId = None\<rparr> ''uuid-2'' 9000 store_s1
     = (Json400 ''Content is required and must be a string'', store_s1)
   \<and> api_verify exact steady_analyzer (\<lambda>c. True) False
       \<lparr>rb_content = JNumber 42, rb_userId = JUndefined, rb_sessionId = None\<rparr> ''uuid-2'' 9000 store_s1
     = (Json400 ''Content is required and must be a string'', store_s1)
   \<and> isl (fst (verifyContent exact steady_analyzer (JNumber 42) (JString ''u2'') None ''uuid-2'' 9000
                 store_s1))
   \<and> snd (verifyContent exact steady_analyzer (JNumber 42) (JString ''u2'') None ''uuid-2'' 9000
             store_s1) = store_s1"
proof -
  have a: "rb_content \<lparr>rb_content = JString [], rb_userId = JUndefined, rb_sessionId = None\<rparr> = JString []
           \<or> (\<forall>s. rb_content \<lparr>rb_content = JString [], rb_userId = JUndefined, rb_sessionId = None\<rparr>
                    \<noteq> JString s)"
    by simp
  have b: "rb_content \<lparr>rb_content = JNumber 42, rb_userId = JUndefined, rb_sessionId = None\<rparr> = JString []
           \<or> (\<forall>s. rb_content \<lparr>rb_content = JNumber 42, rb_userId = JUndefined, rb_sessionId = None\<rparr>
                    \<noteq> JString s)"
    by simp
  from invalid_content_rejected_at_api[OF a, of exact steady_analyzer "\<lambda>c. True" False "''uuid-2''" 9000
         store_s1 "JString ''u2''" None]
    invalid_content_rejected_at_api[OF b, of exact steady_analyzer "\<lambda>c. True" False "''uuid-2''" 9000
         store_s1 "JString ''u2''" None]
  show ?thesis by simp
qed

text \<open>
  C4 as stated fails: \<open>verifyContent\<close> called with the empty string returns a result,
  stores a session and counts the verification.
\<close>

theorem empty_content_accepted:
  "\<not> isl (fst (verifyContent exact steady_analyzer (JString []) (JString ''u1'') None ''uuid-1'' 1000
                 initial_state))
   \<and> map fst (activeVerifications
        (snd (verifyContent exact steady_analyzer (JString []) (JString ''u1'') None ''uuid-1'' 1000
                initial_state))) = [''uuid-1'']
   \<and> activeVerifications initial_state = []
   \<and> totalVerifications
        (snd (verifyContent exact steady_analyzer (JString []) (JString ''u1'') None ''uuid-1'' 1000
                initial_state)) = 1
   \<and> totalVerifications initial_state = 0"
  by code_simp

section \<open>Analyzer failure\<close>

text \<open>
  C7. When an analyzer selected for the content throws, \<open>verifyContent\<close> throws as well, with
  the error of a selected analyzer that threw; it leaves the session's record with status
  \<open>failed\<close>, the error's message, and no result.
\<close>

theorem analyzer_failure_fails_verification:
  fixes rnd :: "rat \<Rightarrow> rat" and analyze :: analyzer and userId :: js_value
    and verificationId :: "string option" and uuid :: string and now :: int and st :: vs_state
  assumes sel: "agent \<in> set (selectAgents_string content)"
      and raises: "snd (analyze agent content) = Inl err"
  defines "run \<equiv> verifyContent rnd analyze (JString content) userId verificationId uuid now st"
  shows "\<exists>e v. fst run = Inl e
           \<and> (\<exists>a \<in> set (selectAgents_string content). snd (analyze a content) = Inl e)
           \<and> getVerification (id_or_uuid verificationId uuid) (snd run) = Some v
           \<and> v_status v = Some ''failed'' \<and> v_error v = Some (message e) \<and> v_result v = None"
proof -
  define ps where "ps = map (\<lambda>a. processAgent analyze now a content) (selectAgents_string content)"
  have "processAgent analyze now agent content = (fst (analyze agent content), Inl err)"
    using raises by (rule processAgent_Inl)
  with sel have "(fst (analyze agent content), Inl err) \<in> set ps"
    unfolding ps_def by (force simp: image_iff)
  from promise_all_rejects[OF this] obtain t e where pa: "promise_all ps = (t, Inl e)" by blast
  from promise_all_Inl_mem[OF pa] obtain a where a: "a \<in> set (selectAgents_string content)"
    and "processAgent analyze now a content = (t, Inl e)" by (auto simp: ps_def)
  then have "snd (analyze a content) = Inl e" by (simp add: processAgent_raised)
  with a have raised: "\<exists>a \<in> set (selectAgents_string content). snd (analyze a content) = Inl e" by blast
  have run: "run = fail_verification (id_or_uuid verificationId uuid) e
                     (snd (verifyContent_begin (JString content) userId verificationId uuid now st))"
    using pa by (simp add: run_def verifyContent_def begin_string ps_def resume_rejected)
  show ?thesis
    unfolding run using raised
    by (simp add: fail_verification_def begin_string getVerification_def update_conv' spread_def)
qed

theorem analyzer_failure_fails_verification_witness:
  "fact_agent \<in> set (selectAgents_string ''hello'')
   \<and> snd (failing_analyzer fact_agent ''hello'') = Inl (Error ''analysis backend unavailable'')
   \<and> fst (verifyContent exact failing_analyzer (JString ''hello'') (JString ''u1'') None ''uuid-1'' 1000
            initial_state) = Inl (Error ''analysis backend unavailable'')
   \<and> (\<exists>v. getVerification ''uuid-1''
              (snd (verifyContent exact failing_analyzer (JString ''hello'') (JString ''u1'') None
                      ''uuid-1'' 1000 initial_state)) = Some v
          \<and> v_status v = Some ''failed'' \<and> v_error v = Some ''analysis backend unavailable''
          \<and> v_result v = None)"
proof -
  have h1: "fact_agent \<in> set (selectAgents_string ''hello'')" by code_simp
  have h2: "snd (failing_analyzer fact_agent ''hello'') = Inl (Error ''analysis backend unavailable'')"
    by code_simp
  have r: "fst (verifyContent exact failing_analyzer (JString ''hello'') (JString ''u1'') None ''uuid-1''
                  1000 initial_state) = Inl (Error ''analysis backend unavailable'')"
    by code_simp
  from analyzer_failure_fails_verification[where analyze = failing_analyzer and agent = fact_agent
         and content = "''hello''" and rnd = exact and userId = "JString ''u1''" and verificationId = None
         and uuid = "''uuid-1''" and now = 1000 and st = initial_state, OF h1 h2]
  show ?thesis using h1 h2 r by (auto simp: id_or_uuid_def)
qed

section \<open>The cleanup sweep\<close>





lemma cleanup_unfold:
  "cleanupOldVerifications now st =
     (fst (cleanup_loop (now - 60 * 60 * 1000) (activeVerifications st) (activeVerifications st)),
      st\<lparr>activeVerifications :=
           snd (cleanup_loop (now - 60 * 60 * 1000) (activeVerifications st)
                  (activeVerifications st))\<rparr>)"
  by (simp add: cleanupOldVerifications_def split: prod.splits)

lemma cleanup_total:
  "totalVerifications (snd (cleanupOldVerifications now st)) = totalVerifications st"
  by (simp add: cleanup_unfold)



section \<open>Completed sessions\<close>










section \<open>The counter of verifications\<close>

text \<open>
  C10, as the code has it. A call of \<open>verifyContent\<close> with a string content adds exactly one
  to \<open>totalVerifications\<close>, in the part that runs before the analyzers, so the call counts
  whatever the analyzers do afterwards. A call with a content that is not a string throws
  before the increment and changes nothing. The part that runs after the analyzers and the
  cleanup sweep leave the counter as it is.
\<close>

theorem total_counts_string_calls:
  "totalVerifications (snd (verifyContent_begin (JString content) userId verificationId uuid now st))
     = totalVerifications st + 1
   \<and> totalVerifications (snd (verifyContent rnd analyze (JString content) userId verificationId uuid now st))
     = totalVerifications st + 1
   \<and> ((\<forall>s. other \<noteq> JString s) \<longrightarrow>
        isl (fst (verifyContent rnd analyze other userId verificationId uuid now st))
        \<and> snd (verifyContent rnd analyze other userId verificationId uuid now st) = st)
   \<and> totalVerifications (snd (verifyContent_resume rnd vid content' selectedAgents settled now' st))
     = totalVerifications st
   \<and> totalVerifications (snd (cleanupOldVerifications now' st)) = totalVerifications st"
proof -
  have "(\<forall>s. other \<noteq> JString s) \<longrightarrow>
        isl (fst (verifyContent rnd analyze other userId verificationId uuid now st))
        \<and> snd (verifyContent rnd analyze other userId verificationId uuid now st) = st"
    using verifyContent_not_string[of other rnd analyze userId verificationId uuid now st] by auto
  then show ?thesis
    by (simp add: verifyContent_string resume_total cleanup_total) (simp add: begin_string)
qed

text \<open>A verification whose fact analyzer throws is counted all the same.\<close>

theorem total_counts_string_calls_witness:
  "isl (fst (verifyContent exact failing_analyzer (JString ''hello'') (JString ''u1'') None ''uuid-1'' 1000
              store_s1))
   \<and> totalVerifications store_s1 = 1
   \<and> totalVerifications
        (snd (verifyContent exact failing_analyzer (JString ''hello'') (JString ''u1'') None ''uuid-1'' 1000
                store_s1)) = 2
   \<and> totalVerifications (snd (cleanupOldVerifications 9000 store_s1)) = 1"
proof -
  have f: "isl (fst (verifyContent exact failing_analyzer (JString ''hello'') (JString ''u1'') None
                       ''uuid-1'' 1000 store_s1))"
    by code_simp
  have t: "totalVerifications store_s1 = 1" by code_simp
  from total_counts_string_calls[where rnd = exact and analyze = failing_analyzer
         and content = "''hello''" and userId = "JString ''u1''" and verificationId = None
         and uuid = "''uuid-1''" and now = 1000 and st = store_s1 and now' = 9000]
  show ?thesis using f t by simp
qed

text \<open>
  C10 as stated fails: a call of \<open>verifyContent\<close> with \<open>undefined\<close> as content throws and
  leaves the counter at its value.
\<close>

theorem non_string_call_not_counted:
  "isl (fst (verifyContent exact steady_analyzer JUndefined (JString ''u1'') None ''uuid-1'' 1000
              store_s1))
   \<and> totalVerifications
        (snd (verifyContent exact steady_analyzer JUndefined (JString ''u1'') None ''uuid-1'' 1000
                store_s1)) = totalVerifications store_s1"
  by code_simp


end
